theory Spec2Isabelle
  imports Main "HOL-Library.Word"
begin

unbundle bit_operations_syntax

section \<open>The miniaudio shim of gameboy-zig (src/vendor/miniaudio.c)\<close>

text \<open>
  The file under verification is a C shim around the vendored single-header library
  miniaudio. The header \<^verbatim>\<open>miniaudio.h\<close> is not among the sources, so everything the shim
  takes from it is either a declaration written down here (types, enumerators, the value
  of \<^verbatim>\<open>MA_SUCCESS\<close>) or a parameter of the model (the native functions and the object
  layout of \<^verbatim>\<open>ma_device_config\<close>).
\<close>

subsection \<open>C types\<close>

type_synonym byte = "8 word"
type_synonym c_uint = "32 word"

text \<open>A pointer is a 64-bit address; \<^verbatim>\<open>NULL\<close> is address 0. Function pointers
  (\<^verbatim>\<open>zig_audio_callback\<close>, \<^verbatim>\<open>ma_device_data_proc\<close>) are addresses too, and the cast
  between them does not change the address.\<close>

type_synonym ptr = "64 word"

definition NULL :: ptr where
  "NULL = 0"

text \<open>\<^verbatim>\<open>typedef int ma_result\<close>; the shim only compares a result with \<^verbatim>\<open>MA_SUCCESS\<close>.\<close>

type_synonym ma_result = int

definition MA_SUCCESS :: ma_result where
  "MA_SUCCESS = 0"

text \<open>The two enumerations of \<^verbatim>\<open>miniaudio.h\<close> the shim takes an enumerator from:
  \<^verbatim>\<open>ma_device_type_playback\<close> and \<^verbatim>\<open>ma_format_f32\<close>.\<close>

datatype ma_device_type =
    ma_device_type_playback
  | ma_device_type_capture
  | ma_device_type_duplex
  | ma_device_type_loopback

datatype ma_format =
    ma_format_unknown
  | ma_format_u8
  | ma_format_s16
  | ma_format_s24
  | ma_format_s32
  | ma_format_f32

text \<open>\<^verbatim>\<open>ma_device\<close>: the shim reads one field, \<^verbatim>\<open>sampleRate\<close>; every other field of the
  native record is kept in \<open>dev_others\<close>.\<close>

record 'd ma_device =
  sampleRate :: c_uint
  dev_others :: 'd

text \<open>\<^verbatim>\<open>ma_device_config\<close>: the six fields the shim names (\<^verbatim>\<open>playback.format\<close> and
  \<^verbatim>\<open>playback.channels\<close> are members of the nested struct \<^verbatim>\<open>playback\<close>); every other
  field is kept in \<open>cfg_others\<close>.\<close>

record 'r ma_device_config =
  deviceType :: ma_device_type
  sampleRate :: c_uint
  playback_format :: ma_format
  playback_channels :: c_uint
  dataCallback :: ptr
  pUserData :: ptr
  cfg_others :: 'r

text \<open>
  The object layout of the native types is fixed by the header and the platform. It is a
  parameter: the two sizes, the object representation of a configuration (its
  \<^verbatim>\<open>sizeof\<close> bytes) and the reading of a configuration from such bytes. The object
  representation is a function of the value: the native initialiser zeroes the whole
  object before it fills it.
\<close>

record 'r layout =
  sizeof_ma_device_config :: nat
  sizeof_ma_device :: nat
  object_bytes :: "'r ma_device_config \<Rightarrow> byte list"
  object_of_bytes :: "byte list \<Rightarrow> 'r ma_device_config"

definition layout_ok :: "'r layout \<Rightarrow> bool" where
  "layout_ok L \<longleftrightarrow>
     (\<forall>c. length (object_bytes L c) = sizeof_ma_device_config L) \<and>
     (\<forall>c. object_of_bytes L (object_bytes L c) = c)"

text \<open>\<^verbatim>\<open>typedef struct { unsigned char data[512]; } zig_ma_device_config;\<close>
  A value of this type is a list of 512 bytes.\<close>

definition sizeof_zig_ma_device_config :: nat where
  "sizeof_zig_ma_device_config = 512"

text \<open>\<^verbatim>\<open>_Static_assert(sizeof(zig_ma_device_config) >= sizeof(ma_device_config), ...)\<close>:
  the condition the compiler evaluates; the shim only builds where it holds.\<close>

definition static_assert_holds :: "'r layout \<Rightarrow> bool" where
  "static_assert_holds L \<longleftrightarrow> sizeof_zig_ma_device_config \<ge> sizeof_ma_device_config L"

text \<open>The view of a blob through the cast \<^verbatim>\<open>(const ma_device_config*)config\<close>: its first
  \<^verbatim>\<open>sizeof(ma_device_config)\<close> bytes read as a configuration.\<close>

definition blob_config :: "'r layout \<Rightarrow> byte list \<Rightarrow> 'r ma_device_config" where
  "blob_config L blob = object_of_bytes L (take (sizeof_ma_device_config L) blob)"

subsection \<open>Faults and the byte operations of the C library\<close>

text \<open>Undefined behaviour of the C program is a fault of the model.\<close>

datatype fault = Out_of_bounds | Null_dereference | Invalid_pointer

text \<open>\<^verbatim>\<open>memset(dst, c, n)\<close> and \<^verbatim>\<open>memcpy(dst, src, n)\<close> on objects given by their bytes:
  writing or reading past the end of an object is out of bounds.\<close>

definition memset :: "byte list \<Rightarrow> byte \<Rightarrow> nat \<Rightarrow> fault + byte list" where
  "memset dst c n =
     (if n \<le> length dst then Inr (replicate n c @ drop n dst) else Inl Out_of_bounds)"

definition memcpy :: "byte list \<Rightarrow> byte list \<Rightarrow> nat \<Rightarrow> fault + byte list" where
  "memcpy dst src n =
     (if n \<le> length dst \<and> n \<le> length src then Inr (take n src @ drop n dst)
      else Inl Out_of_bounds)"

subsection \<open>zig_ma_device_config_playback\<close>

text \<open>
  \<open>ma_device_config_init\<close> is the native function of that name; \<open>indeterminate\<close> gives
  the bytes the uninitialised local \<^verbatim>\<open>result\<close> holds on entry.
\<close>

definition zig_ma_device_config_playback ::
  "'r layout \<Rightarrow> (ma_device_type \<Rightarrow> 'r ma_device_config) \<Rightarrow> (nat \<Rightarrow> byte) \<Rightarrow>
     c_uint \<Rightarrow> ptr \<Rightarrow> ptr \<Rightarrow> fault + byte list" where
  "zig_ma_device_config_playback L ma_device_config_init indeterminate
       sample_rate callback user_data =
     (let result = map indeterminate [0..<sizeof_zig_ma_device_config] in
      case memset result 0 sizeof_zig_ma_device_config of
        Inl f \<Rightarrow> Inl f
      | Inr result \<Rightarrow>
          let cfg = ma_device_config_init ma_device_type_playback;
              cfg = cfg\<lparr>playback_format := ma_format_f32\<rparr>;
              cfg = cfg\<lparr>playback_channels := 1\<rparr>;
              cfg = cfg\<lparr>ma_device_config.sampleRate := sample_rate\<rparr>;
              cfg = cfg\<lparr>dataCallback := callback\<rparr>;
              cfg = cfg\<lparr>pUserData := user_data\<rparr>
          in memcpy result (object_bytes L cfg) (sizeof_ma_device_config L))"

text \<open>Modelled from the spec: \<^verbatim>\<open>ma_device_config_init\<close> of \<^verbatim>\<open>miniaudio.h\<close>, which is
  not among the sources. The spec's only word on it is that the configuration built for
  a device kind records that kind.\<close>

definition ma_device_config_init_contract ::
  "(ma_device_type \<Rightarrow> 'r ma_device_config) \<Rightarrow> bool" where
  "ma_device_config_init_contract ma_device_config_init \<longleftrightarrow>
     (\<forall>t. deviceType (ma_device_config_init t) = t)"

subsection \<open>Memory, the audio engine and the calls that leave the shim\<close>

text \<open>
  An object in memory is a configuration blob of the caller, a block \<^verbatim>\<open>malloc\<close> returned
  that nothing has written yet, or a native device record in such a block.
\<close>

datatype 'd object = Config_blob "byte list" | Raw_block nat | Device "'d ma_device"

datatype call =
    Call_malloc nat ptr
  | Call_free ptr
  | Call_ma_device_init ptr ptr ptr
  | Call_ma_device_start ptr
  | Call_ma_device_uninit ptr

text \<open>The state the shim runs in: the live objects by address, the state of the native
  audio engine (of a type the shim never looks into), and the calls made so far to
  the C library and to miniaudio, oldest first.\<close>

record ('d, 'n) world =
  store :: "ptr \<rightharpoonup> 'd object"
  engine :: 'n
  calls :: "call list"

text \<open>
  \<^verbatim>\<open>malloc(n)\<close>. The allocator's choice is the argument \<open>p\<close>: \<^verbatim>\<open>NULL\<close> when it fails,
  else the address of the new block. \<open>malloc_fresh\<close> is what the C library promises of
  that choice: the block is disjoint from every live object.
\<close>

definition malloc :: "ptr \<Rightarrow> nat \<Rightarrow> ('d, 'n) world \<Rightarrow> ptr \<times> ('d, 'n) world" where
  "malloc p n w =
     (if p = NULL then (NULL, w\<lparr>calls := calls w @ [Call_malloc n NULL]\<rparr>)
      else (p, w\<lparr>store := (store w)(p \<mapsto> Raw_block n),
                 calls := calls w @ [Call_malloc n p]\<rparr>))"

definition malloc_fresh :: "ptr \<Rightarrow> ('d, 'n) world \<Rightarrow> bool" where
  "malloc_fresh p w \<longleftrightarrow> p = NULL \<or> store w p = None"

text \<open>\<^verbatim>\<open>free(p)\<close>: nothing happens for \<^verbatim>\<open>NULL\<close>; a pointer that is not a live heap
  block is undefined behaviour.\<close>

definition free :: "ptr \<Rightarrow> ('d, 'n) world \<Rightarrow> fault + ('d, 'n) world" where
  "free p w =
     (if p = NULL then Inr (w\<lparr>calls := calls w @ [Call_free p]\<rparr>)
      else case store w p of
        None \<Rightarrow> Inl Invalid_pointer
      | Some (Config_blob b) \<Rightarrow> Inl Invalid_pointer
      | Some obj \<Rightarrow> Inr (w\<lparr>store := (store w)(p := None), calls := calls w @ [Call_free p]\<rparr>))"

text \<open>
  The native functions are parameters, typed by what their prototypes let them touch.

  \<^verbatim>\<open>ma_result ma_device_init(ma_context*, const ma_device_config*, ma_device*)\<close> reads
  memory (the configuration is behind a pointer to const), changes the engine, and
  writes the object at its third argument: the record it wrote is its second result.
\<close>

type_synonym ('d, 'n) native_init =
  "ptr \<Rightarrow> ptr \<Rightarrow> ptr \<Rightarrow> (ptr \<rightharpoonup> 'd object) \<Rightarrow> 'n \<Rightarrow> ma_result \<times> 'd ma_device \<times> 'n"

definition call_ma_device_init ::
  "('d, 'n) native_init \<Rightarrow> ptr \<Rightarrow> ptr \<Rightarrow> ptr \<Rightarrow> ('d, 'n) world \<Rightarrow> ma_result \<times> ('d, 'n) world" where
  "call_ma_device_init ma_device_init pContext pConfig pDevice w =
     (case ma_device_init pContext pConfig pDevice (store w) (engine w) of
        (r, d, e) \<Rightarrow>
          (r, w\<lparr>store := (store w)(pDevice \<mapsto> Device d), engine := e,
                calls := calls w @ [Call_ma_device_init pContext pConfig pDevice]\<rparr>))"

text \<open>\<^verbatim>\<open>ma_result ma_device_start(ma_device*)\<close> is given the pointer as it is and may change
  memory and the engine (it starts the thread that runs the callback).\<close>

type_synonym ('d, 'n) native_start =
  "ptr \<Rightarrow> (ptr \<rightharpoonup> 'd object) \<Rightarrow> 'n \<Rightarrow> ma_result \<times> (ptr \<rightharpoonup> 'd object) \<times> 'n"

definition call_ma_device_start ::
  "('d, 'n) native_start \<Rightarrow> ptr \<Rightarrow> ('d, 'n) world \<Rightarrow> ma_result \<times> ('d, 'n) world" where
  "call_ma_device_start ma_device_start pDevice w =
     (case ma_device_start pDevice (store w) (engine w) of
        (r, s, e) \<Rightarrow>
          (r, w\<lparr>store := s, engine := e, calls := calls w @ [Call_ma_device_start pDevice]\<rparr>))"

text \<open>\<^verbatim>\<open>void ma_device_uninit(ma_device*)\<close> reads the device record behind its argument
  (a pointer to anything else is undefined behaviour), releases what the engine holds
  for it and leaves a record behind in the block.\<close>

type_synonym ('d, 'n) native_uninit =
  "'d ma_device \<Rightarrow> 'n \<Rightarrow> 'd ma_device \<times> 'n"

definition call_ma_device_uninit ::
  "('d, 'n) native_uninit \<Rightarrow> ptr \<Rightarrow> ('d, 'n) world \<Rightarrow> fault + ('d, 'n) world" where
  "call_ma_device_uninit ma_device_uninit pDevice w =
     (case store w pDevice of
        Some (Device d) \<Rightarrow>
          (case ma_device_uninit d (engine w) of
             (d', e) \<Rightarrow>
               Inr (w\<lparr>store := (store w)(pDevice \<mapsto> Device d'), engine := e,
                      calls := calls w @ [Call_ma_device_uninit pDevice]\<rparr>))
      | _ \<Rightarrow> Inl Invalid_pointer)"

subsection \<open>The four functions on device handles\<close>

definition zig_ma_device_init ::
  "'r layout \<Rightarrow> ('d, 'n) native_init \<Rightarrow> ptr \<Rightarrow> ptr \<Rightarrow> ('d, 'n) world \<Rightarrow>
     fault + ptr \<times> ('d, 'n) world" where
  "zig_ma_device_init L ma_device_init allocated config w =
     (case malloc allocated (sizeof_ma_device L) w of
        (device, w1) \<Rightarrow>
          if device = NULL then Inr (NULL, w1)
          else
            (case call_ma_device_init ma_device_init NULL config device w1 of
               (r, w2) \<Rightarrow>
                 if r \<noteq> MA_SUCCESS then
                   (case free device w2 of
                      Inl f \<Rightarrow> Inl f
                    | Inr w3 \<Rightarrow> Inr (NULL, w3))
                 else Inr (device, w2)))"

text \<open>The function returns \<^verbatim>\<open>void\<close>: the model returns the new state and nothing else.\<close>

definition zig_ma_device_start ::
  "('d, 'n) native_start \<Rightarrow> ptr \<Rightarrow> ('d, 'n) world \<Rightarrow> ('d, 'n) world" where
  "zig_ma_device_start ma_device_start device w =
     (case call_ma_device_start ma_device_start device w of (r, w1) \<Rightarrow> w1)"

definition zig_ma_device_get_sample_rate ::
  "ptr \<Rightarrow> ('d, 'n) world \<Rightarrow> fault + c_uint \<times> ('d, 'n) world" where
  "zig_ma_device_get_sample_rate device w =
     (if device = NULL then Inl Null_dereference
      else case store w device of
        Some (Device d) \<Rightarrow> Inr (ma_device.sampleRate d, w)
      | _ \<Rightarrow> Inl Invalid_pointer)"

definition zig_ma_device_uninit ::
  "('d, 'n) native_uninit \<Rightarrow> ptr \<Rightarrow> ('d, 'n) world \<Rightarrow> fault + ('d, 'n) world" where
  "zig_ma_device_uninit ma_device_uninit device w =
     (if device \<noteq> NULL then
        (case call_ma_device_uninit ma_device_uninit device w of
           Inl f \<Rightarrow> Inl f
         | Inr w1 \<Rightarrow> free device w1)
      else Inr w)"

subsection \<open>A concrete platform, for running the model\<close>

text \<open>
  A layout to run the model on: 32-bit values and 64-bit pointers are stored
  little-endian, enumerators by their number; the six named fields are packed into the
  first 32 bytes of the object, the rest of which is zero. The configuration has no
  further fields (\<open>cfg_others\<close> is of type \<open>unit\<close>).
\<close>

definition le32_bytes :: "c_uint \<Rightarrow> byte list" where
  "le32_bytes w = [ucast w, ucast (drop_bit 8 w), ucast (drop_bit 16 w), ucast (drop_bit 24 w)]"

definition le32_of_bytes :: "byte list \<Rightarrow> c_uint" where
  "le32_of_bytes bs =
     ucast (bs ! 0) OR push_bit 8 (ucast (bs ! 1)) OR push_bit 16 (ucast (bs ! 2))
       OR push_bit 24 (ucast (bs ! 3))"

definition le64_bytes :: "ptr \<Rightarrow> byte list" where
  "le64_bytes w = le32_bytes (ucast w) @ le32_bytes (ucast (drop_bit 32 w))"

definition le64_of_bytes :: "byte list \<Rightarrow> ptr" where
  "le64_of_bytes bs =
     ucast (le32_of_bytes (take 4 bs)) OR push_bit 32 (ucast (le32_of_bytes (drop 4 bs)))"

fun device_type_code :: "ma_device_type \<Rightarrow> c_uint" where
  "device_type_code ma_device_type_playback = 1"
| "device_type_code ma_device_type_capture = 2"
| "device_type_code ma_device_type_duplex = 3"
| "device_type_code ma_device_type_loopback = 4"

definition device_type_of_code :: "c_uint \<Rightarrow> ma_device_type" where
  "device_type_of_code w =
     (if w = 1 then ma_device_type_playback else if w = 2 then ma_device_type_capture
      else if w = 3 then ma_device_type_duplex else ma_device_type_loopback)"

fun format_code :: "ma_format \<Rightarrow> c_uint" where
  "format_code ma_format_unknown = 0"
| "format_code ma_format_u8 = 1"
| "format_code ma_format_s16 = 2"
| "format_code ma_format_s24 = 3"
| "format_code ma_format_s32 = 4"
| "format_code ma_format_f32 = 5"

definition format_of_code :: "c_uint \<Rightarrow> ma_format" where
  "format_of_code w =
     (if w = 1 then ma_format_u8 else if w = 2 then ma_format_s16
      else if w = 3 then ma_format_s24 else if w = 4 then ma_format_s32
      else if w = 5 then ma_format_f32 else ma_format_unknown)"

definition packed_bytes :: "nat \<Rightarrow> unit ma_device_config \<Rightarrow> byte list" where
  "packed_bytes n c =
     le32_bytes (device_type_code (deviceType c)) @
     le32_bytes (ma_device_config.sampleRate c) @
     le64_bytes (dataCallback c) @
     le64_bytes (pUserData c) @
     le32_bytes (format_code (playback_format c)) @
     le32_bytes (playback_channels c) @
     replicate (n - 32) 0"

definition packed_of_bytes :: "byte list \<Rightarrow> unit ma_device_config" where
  "packed_of_bytes bs =
     \<lparr>deviceType = device_type_of_code (le32_of_bytes (take 4 bs)),
      sampleRate = le32_of_bytes (take 4 (drop 4 bs)),
      playback_format = format_of_code (le32_of_bytes (take 4 (drop 24 bs))),
      playback_channels = le32_of_bytes (take 4 (drop 28 bs)),
      dataCallback = le64_of_bytes (take 8 (drop 8 bs)),
      pUserData = le64_of_bytes (take 8 (drop 16 bs)),
      cfg_others = ()\<rparr>"

definition packed_layout :: "nat \<Rightarrow> unit layout" where
  "packed_layout n =
     \<lparr>sizeof_ma_device_config = max 32 n, sizeof_ma_device = 64,
      object_bytes = packed_bytes (max 32 n), object_of_bytes = packed_of_bytes\<rparr>"

text \<open>A native configuration initialiser to run the model on: everything zero but the
  device kind.\<close>

definition zeroing_config_init :: "ma_device_type \<Rightarrow> unit ma_device_config" where
  "zeroing_config_init t =
     \<lparr>deviceType = t, sampleRate = 0, playback_format = ma_format_unknown,
      playback_channels = 0, dataCallback = NULL, pUserData = NULL, cfg_others = ()\<rparr>"

definition playback_cfg :: "c_uint \<Rightarrow> ptr \<Rightarrow> ptr \<Rightarrow> unit ma_device_config" where
  "playback_cfg rate cb ud =
     \<lparr>deviceType = ma_device_type_playback, sampleRate = rate,
      playback_format = ma_format_f32, playback_channels = 1,
      dataCallback = cb, pUserData = ud, cfg_others = ()\<rparr>"

text \<open>The blob \<open>zig_ma_device_config_playback\<close> builds on a platform whose native
  configuration has 40 bytes.\<close>

definition playback_blob :: "c_uint \<Rightarrow> ptr \<Rightarrow> ptr \<Rightarrow> byte list" where
  "playback_blob rate cb ud = packed_bytes 40 (playback_cfg rate cb ud) @ replicate 472 0"

text \<open>
  A native engine to run the model on; its state counts the open devices.
  Initialisation reads the configuration behind \<open>pConfig\<close>; it opens a device at the
  requested rate, and refuses a rate of 0 and a pointer to anything but a blob.
  Starting returns a given result code and changes nothing. Teardown closes the device.
\<close>

definition counting_device_init :: "(unit, nat) native_init" where
  "counting_device_init pContext pConfig pDevice s e =
     (case s pConfig of
        Some (Config_blob b) \<Rightarrow>
          (let rate = ma_device_config.sampleRate (blob_config (packed_layout 40) b) in
           if rate = 0 then (- 2, \<lparr>ma_device.sampleRate = 0, dev_others = ()\<rparr>, e)
           else (MA_SUCCESS, \<lparr>ma_device.sampleRate = rate, dev_others = ()\<rparr>, Suc e))
      | _ \<Rightarrow> (- 2, \<lparr>ma_device.sampleRate = 0, dev_others = ()\<rparr>, e))"

definition counting_device_start :: "ma_result \<Rightarrow> (unit, nat) native_start" where
  "counting_device_start r pDevice s e = (r, s, e)"

definition counting_device_uninit :: "(unit, nat) native_uninit" where
  "counting_device_uninit d e = (d\<lparr>ma_device.sampleRate := 0\<rparr>, e - 1)"

text \<open>Two states to run the model in: the caller holds a blob at address 0x1000 and no
  device is open; and the same with a device record at 0x2000.\<close>

definition caller_world :: "byte list \<Rightarrow> (unit, nat) world" where
  "caller_world blob = \<lparr>store = [0x1000 \<mapsto> Config_blob blob], engine = 0, calls = []\<rparr>"

definition device_world :: "byte list \<Rightarrow> c_uint \<Rightarrow> (unit, nat) world" where
  "device_world blob rate =
     \<lparr>store = [0x1000 \<mapsto> Config_blob blob,
               0x2000 \<mapsto> Device \<lparr>ma_device.sampleRate = rate, dev_others = ()\<rparr>],
      engine = 1, calls = []\<rparr>"

subsection \<open>What the spec says of the native initialisation\<close>



section \<open>Properties\<close>

subsection \<open>The concrete layout is a layout\<close>

lemma length_le32_bytes [simp]: "length (le32_bytes w) = 4"
  by (simp add: le32_bytes_def)

lemma length_le64_bytes [simp]: "length (le64_bytes w) = 8"
  by (simp add: le64_bytes_def)

lemma le32_roundtrip [simp]: "le32_of_bytes (le32_bytes w) = w"
proof (rule bit_word_eqI)
  fix n assume "n < LENGTH(32)"
  then consider "n < 8" | "8 \<le> n" "n < 16" | "16 \<le> n" "n < 24" | "24 \<le> n" "n < 32"
    by fastforce
  then show "bit (le32_of_bytes (le32_bytes w)) n = bit w n"
    by cases (auto simp add: le32_of_bytes_def le32_bytes_def bit_simps)
qed

lemma le64_roundtrip [simp]: "le64_of_bytes (le64_bytes w) = w"
proof (rule bit_word_eqI)
  fix n assume "n < LENGTH(64)"
  then consider "n < 32" | "32 \<le> n" "n < 64"
    by fastforce
  then show "bit (le64_of_bytes (le64_bytes w)) n = bit w n"
    by cases (auto simp add: le64_of_bytes_def le64_bytes_def bit_simps)
qed

lemma device_type_roundtrip [simp]: "device_type_of_code (device_type_code t) = t"
  by (cases t) (simp_all add: device_type_of_code_def)

lemma format_roundtrip [simp]: "format_of_code (format_code t) = t"
  by (cases t) (simp_all add: format_of_code_def)

lemma length_packed_bytes: "32 \<le> n \<Longrightarrow> length (packed_bytes n c) = n"
  by (simp add: packed_bytes_def)

lemma packed_roundtrip: "packed_of_bytes (packed_bytes n c) = c"
  by (simp add: packed_bytes_def packed_of_bytes_def)

lemma packed_layout_ok: "layout_ok (packed_layout n)"
  by (simp add: layout_ok_def packed_layout_def length_packed_bytes packed_roundtrip)

subsection \<open>Building the configuration blob\<close>

lemma memset_whole: "memset (map g [0..<n]) c n = Inr (replicate n c)"
  by (simp add: memset_def)

lemma memcpy_object:
  assumes "length src = n" and "n \<le> length dst"
  shows "memcpy dst src n = Inr (src @ drop n dst)"
  using assms by (simp add: memcpy_def)

lemma memcpy_overrun: "length dst < n \<Longrightarrow> memcpy dst src n = Inl Out_of_bounds"
  by (simp add: memcpy_def)

text \<open>The local \<^verbatim>\<open>result\<close> is zeroed whatever it held, so the function is one copy
  into 512 zero bytes.\<close>

lemma zig_ma_device_config_playback_eq:
  "zig_ma_device_config_playback L ci g sample_rate callback user_data =
     memcpy (replicate sizeof_zig_ma_device_config 0)
       (object_bytes L
          ((ci ma_device_type_playback)
             \<lparr>playback_format := ma_format_f32, playback_channels := 1,
              ma_device_config.sampleRate := sample_rate, dataCallback := callback,
              pUserData := user_data\<rparr>))
       (sizeof_ma_device_config L)"
  by (simp add: zig_ma_device_config_playback_def memset_whole Let_def)

lemma zig_ma_device_config_playback_run:
  assumes L: "layout_ok L" and sa: "static_assert_holds L"
  shows "zig_ma_device_config_playback L ci g sample_rate callback user_data =
     Inr (object_bytes L
            ((ci ma_device_type_playback)
               \<lparr>playback_format := ma_format_f32, playback_channels := 1,
                ma_device_config.sampleRate := sample_rate, dataCallback := callback,
                pUserData := user_data\<rparr>)
          @ replicate (sizeof_zig_ma_device_config - sizeof_ma_device_config L) 0)"
proof -
  have "memcpy (replicate sizeof_zig_ma_device_config 0) (object_bytes L c)
          (sizeof_ma_device_config L) =
        Inr (object_bytes L c
             @ drop (sizeof_ma_device_config L) (replicate sizeof_zig_ma_device_config 0))" for c
    by (rule memcpy_object) (use L sa in \<open>simp_all add: layout_ok_def static_assert_holds_def\<close>)
  then show ?thesis
    by (simp add: zig_ma_device_config_playback_eq)
qed

lemma blob_config_object:
  assumes "layout_ok L"
  shows "blob_config L (object_bytes L c @ rest) = c"
  using assms by (simp add: blob_config_def layout_ok_def)


text \<open>
  Claim C2. For every sample rate, callback and user-data pointer the builder succeeds,
  and the blob it returns, read as a native configuration, has device kind playback,
  sample format 32-bit float, one channel, the given sample rate, the given callback
  and the given user-data pointer; every byte of the blob past the copied native
  configuration is zero. The hypotheses are what the build fixes: a layout, the static
  assertion, and that the native initialiser records the device kind it is given.
\<close>

theorem zig_ma_device_config_playback_fields:
  assumes L: "layout_ok L" and sa: "static_assert_holds L"
    and ci: "ma_device_config_init_contract ci"
  shows "\<exists>blob. zig_ma_device_config_playback L ci g sample_rate callback user_data = Inr blob
     \<and> length blob = sizeof_zig_ma_device_config
     \<and> deviceType (blob_config L blob) = ma_device_type_playback
     \<and> playback_format (blob_config L blob) = ma_format_f32
     \<and> playback_channels (blob_config L blob) = 1
     \<and> ma_device_config.sampleRate (blob_config L blob) = sample_rate
     \<and> dataCallback (blob_config L blob) = callback
     \<and> pUserData (blob_config L blob) = user_data
     \<and> (\<forall>i. sizeof_ma_device_config L \<le> i \<and> i < sizeof_zig_ma_device_config
            \<longrightarrow> blob ! i = 0)"
proof -
  define cfg where "cfg = (ci ma_device_type_playback)
             \<lparr>playback_format := ma_format_f32, playback_channels := 1,
              ma_device_config.sampleRate := sample_rate, dataCallback := callback,
              pUserData := user_data\<rparr>"
  define n where "n = sizeof_ma_device_config L"
  define blob where "blob = object_bytes L cfg @ replicate (sizeof_zig_ma_device_config - n) 0"
  have len: "length (object_bytes L cfg) = n"
    using L by (simp add: layout_ok_def n_def)
  have le: "n \<le> sizeof_zig_ma_device_config"
    using sa by (simp add: static_assert_holds_def n_def)
  have run: "zig_ma_device_config_playback L ci g sample_rate callback user_data = Inr blob"
    unfolding blob_def cfg_def n_def by (rule zig_ma_device_config_playback_run [OF L sa])
  have view: "blob_config L blob = cfg"
    unfolding blob_def by (rule blob_config_object [OF L])
  have kind: "deviceType cfg = ma_device_type_playback"
    using ci by (simp add: cfg_def ma_device_config_init_contract_def)
  have size: "length blob = sizeof_zig_ma_device_config"
    using len le by (simp add: blob_def)
  have tail: "blob ! i = 0" if "n \<le> i" "i < sizeof_zig_ma_device_config" for i
    using that len by (simp add: blob_def nth_append)
  show ?thesis
    using run size kind tail by (simp add: view n_def [symmetric]) (simp add: cfg_def)
qed

lemma packed_layout_asserted: "n \<le> 512 \<Longrightarrow> static_assert_holds (packed_layout n)"
  by (simp add: static_assert_holds_def packed_layout_def sizeof_zig_ma_device_config_def)

lemma zeroing_config_init_contract: "ma_device_config_init_contract zeroing_config_init"
  by (simp add: ma_device_config_init_contract_def zeroing_config_init_def)

theorem zig_ma_device_config_playback_fields_witness:
  "layout_ok (packed_layout 40) \<and> static_assert_holds (packed_layout 40)
   \<and> ma_device_config_init_contract zeroing_config_init
   \<and> (\<exists>blob. zig_ma_device_config_playback (packed_layout 40) zeroing_config_init
                (\<lambda>i. 0xAA) 48000 0x4000 0x5000 = Inr blob
        \<and> length blob = 512
        \<and> deviceType (blob_config (packed_layout 40) blob) = ma_device_type_playback
        \<and> playback_format (blob_config (packed_layout 40) blob) = ma_format_f32
        \<and> playback_channels (blob_config (packed_layout 40) blob) = 1
        \<and> ma_device_config.sampleRate (blob_config (packed_layout 40) blob) = 48000
        \<and> dataCallback (blob_config (packed_layout 40) blob) = 0x4000
        \<and> pUserData (blob_config (packed_layout 40) blob) = 0x5000
        \<and> (\<forall>i. 40 \<le> i \<and> i < 512 \<longrightarrow> blob ! i = 0))"
proof -
  have L: "layout_ok (packed_layout 40)"
    by (rule packed_layout_ok)
  have sa: "static_assert_holds (packed_layout 40)"
    by (simp add: packed_layout_asserted)
  have size: "sizeof_ma_device_config (packed_layout 40) = 40"
    by (simp add: packed_layout_def)
  from zig_ma_device_config_playback_fields [OF L sa zeroing_config_init_contract,
      of "\<lambda>i. 0xAA" 48000 "0x4000" "0x5000"]
  show ?thesis
    using L sa zeroing_config_init_contract
    by (simp add: size sizeof_zig_ma_device_config_def)
qed

text \<open>
  Claim C9. The builder is deterministic: two calls with equal sample rate, callback
  and user data return the same bytes, whatever the uninitialised local \<^verbatim>\<open>result\<close>
  held on entry to each call. Every byte of a returned blob is fixed by the arguments:
  the first \<^verbatim>\<open>sizeof(ma_device_config)\<close> bytes are the representation of the
  configuration, the rest are zero.
\<close>

theorem zig_ma_device_config_playback_deterministic:
  "zig_ma_device_config_playback L ci g sample_rate callback user_data =
     zig_ma_device_config_playback L ci g' sample_rate callback user_data
   \<and> (\<forall>blob. zig_ma_device_config_playback L ci g sample_rate callback user_data = Inr blob
        \<longrightarrow> blob =
          take (sizeof_ma_device_config L)
            (object_bytes L
               ((ci ma_device_type_playback)
                  \<lparr>playback_format := ma_format_f32, playback_channels := 1,
                   ma_device_config.sampleRate := sample_rate, dataCallback := callback,
                   pUserData := user_data\<rparr>))
          @ replicate (sizeof_zig_ma_device_config - sizeof_ma_device_config L) 0)"
  by (auto simp add: zig_ma_device_config_playback_eq memcpy_def split: if_splits)

lemma zig_ma_device_config_playback_packed:
  "zig_ma_device_config_playback (packed_layout 40) zeroing_config_init g rate cb ud =
     Inr (playback_blob rate cb ud)"
proof -
  have "zeroing_config_init ma_device_type_playback
          \<lparr>playback_format := ma_format_f32, playback_channels := 1,
           ma_device_config.sampleRate := rate, dataCallback := cb, pUserData := ud\<rparr> =
        playback_cfg rate cb ud"
    by (simp add: zeroing_config_init_def playback_cfg_def)
  then show ?thesis
    using zig_ma_device_config_playback_run [OF packed_layout_ok packed_layout_asserted,
        of 40 zeroing_config_init g rate cb ud]
    by (simp add: packed_layout_def playback_blob_def sizeof_zig_ma_device_config_def)
qed

theorem zig_ma_device_config_playback_deterministic_witness:
  "zig_ma_device_config_playback (packed_layout 40) zeroing_config_init (\<lambda>i. 0xAA)
      48000 0x4000 0x5000 =
   zig_ma_device_config_playback (packed_layout 40) zeroing_config_init (\<lambda>i. of_nat i)
      48000 0x4000 0x5000
   \<and> zig_ma_device_config_playback (packed_layout 40) zeroing_config_init (\<lambda>i. 0xAA)
        48000 0x4000 0x5000 = Inr (playback_blob 48000 0x4000 0x5000)
   \<and> playback_blob 48000 0x4000 0x5000 =
       take 40 (packed_bytes 40 (playback_cfg 48000 0x4000 0x5000)) @ replicate 472 0"
  using zig_ma_device_config_playback_deterministic
    [of "packed_layout 40" zeroing_config_init "\<lambda>i. 0xAA" 48000 "0x4000" "0x5000" "\<lambda>i. of_nat i"]
  by (simp add: zig_ma_device_config_playback_packed playback_blob_def length_packed_bytes)

text \<open>
  Claim C4. The blob type is a buffer of 512 bytes, and its size covers the native
  configuration wherever the shim builds: the static assertion holds exactly when
  \<^verbatim>\<open>sizeof(ma_device_config)\<close> is at most 512. The size is checked at build time only.
  Nothing checks it when the program runs: on a layout that breaks the assertion the
  builder copies past the end of the blob, and on one that keeps it the builder returns
  512 bytes.
\<close>

theorem blob_size_static_assertion:
  "sizeof_zig_ma_device_config = 512
   \<and> (static_assert_holds L \<longleftrightarrow> sizeof_ma_device_config L \<le> sizeof_zig_ma_device_config)
   \<and> (layout_ok L \<and> \<not> static_assert_holds L \<longrightarrow>
        zig_ma_device_config_playback L ci g sample_rate callback user_data = Inl Out_of_bounds)
   \<and> (layout_ok L \<and> static_assert_holds L \<longrightarrow>
        (\<exists>blob. zig_ma_device_config_playback L ci g sample_rate callback user_data = Inr blob
           \<and> length blob = sizeof_zig_ma_device_config))"
proof (intro conjI impI)
  show "sizeof_zig_ma_device_config = 512"
    by (simp add: sizeof_zig_ma_device_config_def)
  show "static_assert_holds L \<longleftrightarrow> sizeof_ma_device_config L \<le> sizeof_zig_ma_device_config"
    by (simp add: static_assert_holds_def)
next
  assume "layout_ok L \<and> \<not> static_assert_holds L"
  then have "length (replicate sizeof_zig_ma_device_config (0::byte)) < sizeof_ma_device_config L"
    by (simp add: static_assert_holds_def)
  then show "zig_ma_device_config_playback L ci g sample_rate callback user_data = Inl Out_of_bounds"
    unfolding zig_ma_device_config_playback_eq by (rule memcpy_overrun)
next
  assume a: "layout_ok L \<and> static_assert_holds L"
  then have L: "layout_ok L" and sa: "static_assert_holds L"
    by simp_all
  show "\<exists>blob. zig_ma_device_config_playback L ci g sample_rate callback user_data = Inr blob
           \<and> length blob = sizeof_zig_ma_device_config"
    using L sa unfolding zig_ma_device_config_playback_run [OF L sa]
    by (simp add: layout_ok_def static_assert_holds_def)
qed

theorem blob_size_static_assertion_witness:
  "layout_ok (packed_layout 600) \<and> \<not> static_assert_holds (packed_layout 600)
   \<and> zig_ma_device_config_playback (packed_layout 600) zeroing_config_init (\<lambda>i. 0xAA)
        48000 0x4000 0x5000 = Inl Out_of_bounds
   \<and> layout_ok (packed_layout 40) \<and> static_assert_holds (packed_layout 40)
   \<and> (\<exists>blob. zig_ma_device_config_playback (packed_layout 40) zeroing_config_init
          (\<lambda>i. 0xAA) 48000 0x4000 0x5000 = Inr blob \<and> length blob = 512)"
proof -
  have L600: "layout_ok (packed_layout 600)" and L40: "layout_ok (packed_layout 40)"
    by (rule packed_layout_ok)+
  have no: "\<not> static_assert_holds (packed_layout 600)"
    by (simp add: static_assert_holds_def packed_layout_def sizeof_zig_ma_device_config_def)
  have yes: "static_assert_holds (packed_layout 40)"
    by (simp add: packed_layout_asserted)
  have overrun: "zig_ma_device_config_playback (packed_layout 600) zeroing_config_init
      (\<lambda>i. 0xAA) 48000 0x4000 0x5000 = Inl Out_of_bounds"
    using blob_size_static_assertion
      [of "packed_layout 600" zeroing_config_init "\<lambda>i. 0xAA" 48000 "0x4000" "0x5000"]
      L600 no by blast
  have "\<exists>blob. zig_ma_device_config_playback (packed_layout 40) zeroing_config_init
      (\<lambda>i. 0xAA) 48000 0x4000 0x5000 = Inr blob \<and> length blob = sizeof_zig_ma_device_config"
    using blob_size_static_assertion
      [of "packed_layout 40" zeroing_config_init "\<lambda>i. 0xAA" 48000 "0x4000" "0x5000"]
      L40 yes by blast
  then have fits: "\<exists>blob. zig_ma_device_config_playback (packed_layout 40) zeroing_config_init
      (\<lambda>i. 0xAA) 48000 0x4000 0x5000 = Inr blob \<and> length blob = 512"
    by (simp only: sizeof_zig_ma_device_config_def)
  show ?thesis
    using L600 no overrun L40 yes fits by blast
qed

subsection \<open>Initialising a device\<close>

lemma malloc_NULL:
  "malloc NULL n w = (NULL, w\<lparr>calls := calls w @ [Call_malloc n NULL]\<rparr>)"
  by (simp add: malloc_def)

lemma malloc_block:
  "p \<noteq> NULL \<Longrightarrow>
   malloc p n w =
     (p, w\<lparr>store := (store w)(p \<mapsto> Raw_block n), calls := calls w @ [Call_malloc n p]\<rparr>)"
  by (simp add: malloc_def)

lemma free_Device:
  "p \<noteq> NULL \<Longrightarrow> store w p = Some (Device d) \<Longrightarrow>
   free p w = Inr (w\<lparr>store := (store w)(p := None), calls := calls w @ [Call_free p]\<rparr>)"
  by (simp add: free_def)

lemma zig_ma_device_init_NULL:
  "zig_ma_device_init L mi NULL config w =
     Inr (NULL, w\<lparr>calls := calls w @ [Call_malloc (sizeof_ma_device L) NULL]\<rparr>)"
  by (simp add: zig_ma_device_init_def malloc_NULL)

lemma zig_ma_device_init_failure:
  assumes p: "p \<noteq> NULL" and fresh: "store w p = None"
    and native: "mi NULL config p ((store w)(p \<mapsto> Raw_block (sizeof_ma_device L))) (engine w)
                   = (r, d, e)"
    and r: "r \<noteq> MA_SUCCESS"
  shows "zig_ma_device_init L mi p config w =
     Inr (NULL, w\<lparr>engine := e,
        calls := calls w @ [Call_malloc (sizeof_ma_device L) p,
          Call_ma_device_init NULL config p, Call_free p]\<rparr>)"
proof -
  have "((store w)(p \<mapsto> Device d))(p := None) = store w"
    using fresh by (simp add: fun_upd_idem)
  then show ?thesis
    using p native r
    by (simp add: zig_ma_device_init_def malloc_block call_ma_device_init_def free_Device)
qed

lemma zig_ma_device_init_success:
  assumes p: "p \<noteq> NULL"
    and native: "mi NULL config p ((store w)(p \<mapsto> Raw_block (sizeof_ma_device L))) (engine w)
                   = (MA_SUCCESS, d, e)"
  shows "zig_ma_device_init L mi p config w =
     Inr (p, w\<lparr>store := (store w)(p \<mapsto> Device d), engine := e,
        calls := calls w @ [Call_malloc (sizeof_ma_device L) p,
          Call_ma_device_init NULL config p]\<rparr>)"
  using p native
  by (simp add: zig_ma_device_init_def malloc_block call_ma_device_init_def)

text \<open>The three ways through the function, by what the allocator and the native
  initialisation answer.\<close>

lemma zig_ma_device_init_cases:
  assumes fresh: "malloc_fresh p w"
  obtains
    (alloc_failed) "p = NULL"
      "zig_ma_device_init L mi p config w =
         Inr (NULL, w\<lparr>calls := calls w @ [Call_malloc (sizeof_ma_device L) NULL]\<rparr>)"
  | (init_failed) r d e where "p \<noteq> NULL" "store w p = None" "r \<noteq> MA_SUCCESS"
      "mi NULL config p ((store w)(p \<mapsto> Raw_block (sizeof_ma_device L))) (engine w) = (r, d, e)"
      "zig_ma_device_init L mi p config w =
         Inr (NULL, w\<lparr>engine := e,
           calls := calls w @ [Call_malloc (sizeof_ma_device L) p,
             Call_ma_device_init NULL config p, Call_free p]\<rparr>)"
  | (initialised) d e where "p \<noteq> NULL" "store w p = None"
      "mi NULL config p ((store w)(p \<mapsto> Raw_block (sizeof_ma_device L))) (engine w)
         = (MA_SUCCESS, d, e)"
      "zig_ma_device_init L mi p config w =
         Inr (p, w\<lparr>store := (store w)(p \<mapsto> Device d), engine := e,
           calls := calls w @ [Call_malloc (sizeof_ma_device L) p,
             Call_ma_device_init NULL config p]\<rparr>)"
proof (cases "p = NULL")
  case True
  then show ?thesis
    using alloc_failed by (simp add: zig_ma_device_init_NULL)
next
  case False
  with fresh have none: "store w p = None"
    by (simp add: malloc_fresh_def)
  obtain r d e where
    native: "mi NULL config p ((store w)(p \<mapsto> Raw_block (sizeof_ma_device L))) (engine w) = (r, d, e)"
    by (metis prod_cases3)
  show ?thesis
  proof (cases "r = MA_SUCCESS")
    case True
    with False none native show ?thesis
      using initialised [of d e] by (simp add: zig_ma_device_init_success)
  next
    case r: False
    from zig_ma_device_init_failure [where mi = mi and w = w and r = r and d = d,
        OF False none native r]
    show ?thesis
      using init_failed [of r d e] False none native r by simp
  qed
qed

text \<open>
  Claim C1. \<open>zig_ma_device_init\<close> returns null exactly when an error occurs, and leaks
  nothing. When the allocation fails it returns null and the only call made is the
  \<^verbatim>\<open>malloc\<close>: the native initialisation is not attempted. When the native
  initialisation answers anything but \<^verbatim>\<open>MA_SUCCESS\<close> the block is freed before null is
  returned, and memory is as it was before the call. Otherwise the handle returned is
  the non-null address of the block, which holds the device record the native
  initialisation wrote.
\<close>

theorem zig_ma_device_init_outcomes:
  assumes fresh: "malloc_fresh p w"
  shows "(p = NULL \<longrightarrow>
            zig_ma_device_init L mi p config w =
              Inr (NULL, w\<lparr>calls := calls w @ [Call_malloc (sizeof_ma_device L) NULL]\<rparr>))
       \<and> (\<forall>r d e. p \<noteq> NULL
              \<and> mi NULL config p ((store w)(p \<mapsto> Raw_block (sizeof_ma_device L))) (engine w)
                  = (r, d, e)
              \<and> r \<noteq> MA_SUCCESS \<longrightarrow>
            zig_ma_device_init L mi p config w =
              Inr (NULL, w\<lparr>engine := e,
                calls := calls w @ [Call_malloc (sizeof_ma_device L) p,
                  Call_ma_device_init NULL config p, Call_free p]\<rparr>))
       \<and> (\<forall>d e. p \<noteq> NULL
              \<and> mi NULL config p ((store w)(p \<mapsto> Raw_block (sizeof_ma_device L))) (engine w)
                  = (MA_SUCCESS, d, e) \<longrightarrow>
            zig_ma_device_init L mi p config w =
              Inr (p, w\<lparr>store := (store w)(p \<mapsto> Device d), engine := e,
                calls := calls w @ [Call_malloc (sizeof_ma_device L) p,
                  Call_ma_device_init NULL config p]\<rparr>))
       \<and> (\<exists>h w'. zig_ma_device_init L mi p config w = Inr (h, w')
              \<and> (h = NULL \<longleftrightarrow>
                   p = NULL
                   \<or> fst (mi NULL config p ((store w)(p \<mapsto> Raw_block (sizeof_ma_device L)))
                            (engine w)) \<noteq> MA_SUCCESS))"
proof (intro conjI allI impI)
  assume "p = NULL"
  then show "zig_ma_device_init L mi p config w =
      Inr (NULL, w\<lparr>calls := calls w @ [Call_malloc (sizeof_ma_device L) NULL]\<rparr>)"
    by (simp add: zig_ma_device_init_NULL)
next
  fix r d e
  assume "p \<noteq> NULL
     \<and> mi NULL config p ((store w)(p \<mapsto> Raw_block (sizeof_ma_device L))) (engine w) = (r, d, e)
     \<and> r \<noteq> MA_SUCCESS"
  then have p: "p \<noteq> NULL" and r: "r \<noteq> MA_SUCCESS"
    and native: "mi NULL config p ((store w)(p \<mapsto> Raw_block (sizeof_ma_device L))) (engine w)
                   = (r, d, e)"
    by simp_all
  from fresh p have none: "store w p = None"
    by (simp add: malloc_fresh_def)
  show "zig_ma_device_init L mi p config w =
      Inr (NULL, w\<lparr>engine := e,
        calls := calls w @ [Call_malloc (sizeof_ma_device L) p,
          Call_ma_device_init NULL config p, Call_free p]\<rparr>)"
    by (rule zig_ma_device_init_failure [where mi = mi and w = w and r = r and d = d,
          OF p none native r])
next
  fix d e
  assume "p \<noteq> NULL
     \<and> mi NULL config p ((store w)(p \<mapsto> Raw_block (sizeof_ma_device L))) (engine w)
         = (MA_SUCCESS, d, e)"
  then show "zig_ma_device_init L mi p config w =
      Inr (p, w\<lparr>store := (store w)(p \<mapsto> Device d), engine := e,
        calls := calls w @ [Call_malloc (sizeof_ma_device L) p,
          Call_ma_device_init NULL config p]\<rparr>)"
    by (simp add: zig_ma_device_init_success)
next
  from fresh show "\<exists>h w'. zig_ma_device_init L mi p config w = Inr (h, w')
      \<and> (h = NULL \<longleftrightarrow>
           p = NULL
           \<or> fst (mi NULL config p ((store w)(p \<mapsto> Raw_block (sizeof_ma_device L)))
                    (engine w)) \<noteq> MA_SUCCESS)"
    by (cases rule: zig_ma_device_init_cases [where L = L and mi = mi and config = config])
       simp_all
qed

text \<open>
  Claim C8. \<open>zig_ma_device_init\<close> never writes through its config argument: whatever
  the allocator and the native initialisation answer, the call returns (a handle or
  null) and the caller's blob holds the bytes it held before.
\<close>

theorem zig_ma_device_init_preserves_config:
  assumes fresh: "malloc_fresh p w"
    and blob: "store w config = Some (Config_blob blob)"
  shows "\<exists>h w'. zig_ma_device_init L mi p config w = Inr (h, w')
           \<and> store w' config = Some (Config_blob blob)"
  using fresh
proof (cases rule: zig_ma_device_init_cases [where L = L and mi = mi and config = config])
  case alloc_failed
  with blob show ?thesis by simp
next
  case (init_failed r d e)
  with blob show ?thesis by simp
next
  case (initialised d e)
  from blob \<open>store w p = None\<close> have "config \<noteq> p"
    by auto
  with initialised blob show ?thesis by simp
qed


subsection \<open>Running the concrete engine\<close>

lemma blob_config_playback_blob:
  "blob_config (packed_layout 40) (playback_blob rate cb ud) = playback_cfg rate cb ud"
  using blob_config_object [OF packed_layout_ok, of 40 "playback_cfg rate cb ud" "replicate 472 0"]
  by (simp add: playback_blob_def packed_layout_def)

lemma counting_device_init_blob:
  assumes "s pConfig = Some (Config_blob (playback_blob rate cb ud))"
  shows "counting_device_init pContext pConfig pDevice s e =
     (if rate = 0 then (- 2, \<lparr>ma_device.sampleRate = 0, dev_others = ()\<rparr>, e)
      else (MA_SUCCESS, \<lparr>ma_device.sampleRate = rate, dev_others = ()\<rparr>, Suc e))"
  using assms
  by (simp add: counting_device_init_def blob_config_playback_blob playback_cfg_def)


lemma addresses_distinct:
  "(0x1000 :: ptr) \<noteq> NULL" "(0x2000 :: ptr) \<noteq> NULL" "(0x2000 :: ptr) \<noteq> 0x1000"
  by (simp_all add: NULL_def)

lemma caller_world_fresh: "malloc_fresh 0x2000 (caller_world blob)"
  by (simp add: malloc_fresh_def caller_world_def)

lemma caller_world_native:
  "counting_device_init NULL 0x1000 0x2000
     ((store (caller_world (playback_blob rate cb ud)))
        (0x2000 \<mapsto> Raw_block (sizeof_ma_device (packed_layout 40))))
     (engine (caller_world (playback_blob rate cb ud))) =
   (if rate = 0 then (- 2, \<lparr>ma_device.sampleRate = 0, dev_others = ()\<rparr>, 0)
    else (MA_SUCCESS, \<lparr>ma_device.sampleRate = rate, dev_others = ()\<rparr>, 1))"
  by (subst counting_device_init_blob [where rate = rate and cb = cb and ud = ud])
     (simp_all add: caller_world_def)

theorem zig_ma_device_init_outcomes_witness:
  "malloc_fresh NULL (caller_world (playback_blob 48000 0x4000 0x5000))
   \<and> zig_ma_device_init (packed_layout 40) counting_device_init NULL 0x1000
        (caller_world (playback_blob 48000 0x4000 0x5000)) =
      Inr (NULL, (caller_world (playback_blob 48000 0x4000 0x5000))
                   \<lparr>calls := [Call_malloc 64 NULL]\<rparr>)
   \<and> malloc_fresh 0x2000 (caller_world (playback_blob 0 0x4000 0x5000))
   \<and> zig_ma_device_init (packed_layout 40) counting_device_init 0x2000 0x1000
        (caller_world (playback_blob 0 0x4000 0x5000)) =
      Inr (NULL, (caller_world (playback_blob 0 0x4000 0x5000))
                   \<lparr>calls := [Call_malloc 64 0x2000, Call_ma_device_init NULL 0x1000 0x2000,
                               Call_free 0x2000]\<rparr>)
   \<and> malloc_fresh 0x2000 (caller_world (playback_blob 48000 0x4000 0x5000))
   \<and> zig_ma_device_init (packed_layout 40) counting_device_init 0x2000 0x1000
        (caller_world (playback_blob 48000 0x4000 0x5000)) =
      Inr (0x2000, (device_world (playback_blob 48000 0x4000 0x5000) 48000)
                   \<lparr>calls := [Call_malloc 64 0x2000, Call_ma_device_init NULL 0x1000 0x2000]\<rparr>)"
proof -
  have size: "sizeof_ma_device (packed_layout 40) = 64"
    by (simp add: packed_layout_def)
  have fresh0: "malloc_fresh NULL (caller_world blob)" for blob
    by (simp add: malloc_fresh_def)
  have a: "zig_ma_device_init (packed_layout 40) counting_device_init NULL 0x1000
        (caller_world (playback_blob 48000 0x4000 0x5000)) =
      Inr (NULL, (caller_world (playback_blob 48000 0x4000 0x5000))
                   \<lparr>calls := [Call_malloc 64 NULL]\<rparr>)"
    using zig_ma_device_init_outcomes [OF fresh0 [of "playback_blob 48000 0x4000 0x5000"],
        where L = "packed_layout 40" and mi = counting_device_init and config = "0x1000"]
    by (simp add: size caller_world_def)
  have "zig_ma_device_init (packed_layout 40) counting_device_init 0x2000 0x1000
        (caller_world (playback_blob 0 0x4000 0x5000)) =
      Inr (NULL, (caller_world (playback_blob 0 0x4000 0x5000))
          \<lparr>engine := 0,
           calls := calls (caller_world (playback_blob 0 0x4000 0x5000))
             @ [Call_malloc (sizeof_ma_device (packed_layout 40)) 0x2000,
                Call_ma_device_init NULL 0x1000 0x2000, Call_free 0x2000]\<rparr>)"
    using zig_ma_device_init_outcomes [OF caller_world_fresh [of "playback_blob 0 0x4000 0x5000"],
        where L = "packed_layout 40" and mi = counting_device_init and config = "0x1000"]
      caller_world_native [of 0 "0x4000" "0x5000"] addresses_distinct
    by (simp add: MA_SUCCESS_def)
  then have b: "zig_ma_device_init (packed_layout 40) counting_device_init 0x2000 0x1000
        (caller_world (playback_blob 0 0x4000 0x5000)) =
      Inr (NULL, (caller_world (playback_blob 0 0x4000 0x5000))
                   \<lparr>calls := [Call_malloc 64 0x2000, Call_ma_device_init NULL 0x1000 0x2000,
                               Call_free 0x2000]\<rparr>)"
    by (simp add: size caller_world_def)
  have "zig_ma_device_init (packed_layout 40) counting_device_init 0x2000 0x1000
        (caller_world (playback_blob 48000 0x4000 0x5000)) =
      Inr (0x2000, (caller_world (playback_blob 48000 0x4000 0x5000))
          \<lparr>store := (store (caller_world (playback_blob 48000 0x4000 0x5000)))
             (0x2000 \<mapsto> Device \<lparr>ma_device.sampleRate = 48000, dev_others = ()\<rparr>),
           engine := 1,
           calls := calls (caller_world (playback_blob 48000 0x4000 0x5000))
             @ [Call_malloc (sizeof_ma_device (packed_layout 40)) 0x2000,
                Call_ma_device_init NULL 0x1000 0x2000]\<rparr>)"
    using zig_ma_device_init_outcomes [OF caller_world_fresh [of "playback_blob 48000 0x4000 0x5000"],
        where L = "packed_layout 40" and mi = counting_device_init and config = "0x1000"]
      caller_world_native [of 48000 "0x4000" "0x5000"] addresses_distinct
    by simp
  then have c: "zig_ma_device_init (packed_layout 40) counting_device_init 0x2000 0x1000
        (caller_world (playback_blob 48000 0x4000 0x5000)) =
      Inr (0x2000, (device_world (playback_blob 48000 0x4000 0x5000) 48000)
                   \<lparr>calls := [Call_malloc 64 0x2000, Call_ma_device_init NULL 0x1000 0x2000]\<rparr>)"
    by (simp add: size caller_world_def device_world_def)
  show ?thesis
    using a b c fresh0 caller_world_fresh by blast
qed

theorem zig_ma_device_init_preserves_config_witness:
  "malloc_fresh 0x2000 (caller_world (playback_blob 48000 0x4000 0x5000))
   \<and> store (caller_world (playback_blob 48000 0x4000 0x5000)) 0x1000 =
       Some (Config_blob (playback_blob 48000 0x4000 0x5000))
   \<and> (\<exists>h w'. zig_ma_device_init (packed_layout 40) counting_device_init 0x2000 0x1000
                (caller_world (playback_blob 48000 0x4000 0x5000)) = Inr (h, w')
         \<and> store w' 0x1000 = Some (Config_blob (playback_blob 48000 0x4000 0x5000)))"
proof -
  have blob: "store (caller_world (playback_blob 48000 0x4000 0x5000)) 0x1000 =
       Some (Config_blob (playback_blob 48000 0x4000 0x5000))"
    by (simp add: caller_world_def)
  from zig_ma_device_init_preserves_config [OF caller_world_fresh blob]
  show ?thesis
    using caller_world_fresh blob by blast
qed

subsection \<open>Reading the sample rate\<close>




text \<open>
  Claim C10. \<open>zig_ma_device_get_sample_rate\<close> is a pure read: for a non-null handle with
  a device record behind it, it returns with the state it was called in. The device
  record, all of memory and the engine are unchanged, and no call to \<^verbatim>\<open>malloc\<close>,
  \<^verbatim>\<open>free\<close> or miniaudio is made.
\<close>

theorem zig_ma_device_get_sample_rate_pure:
  assumes "device \<noteq> NULL" and "store w device = Some (Device d)"
  shows "\<exists>rate w'. zig_ma_device_get_sample_rate device w = Inr (rate, w')
     \<and> store w' device = Some (Device d)
     \<and> store w' = store w \<and> engine w' = engine w \<and> calls w' = calls w \<and> w' = w"
  using assms by (simp add: zig_ma_device_get_sample_rate_def)

theorem zig_ma_device_get_sample_rate_pure_witness:
  "(0x2000 :: ptr) \<noteq> NULL
   \<and> store (device_world [] 44100) 0x2000 =
       Some (Device \<lparr>ma_device.sampleRate = 44100, dev_others = ()\<rparr>)
   \<and> (\<exists>rate w'. zig_ma_device_get_sample_rate 0x2000 (device_world [] 44100) = Inr (rate, w')
        \<and> store w' 0x2000 = Some (Device \<lparr>ma_device.sampleRate = 44100, dev_others = ()\<rparr>)
        \<and> calls w' = [] \<and> w' = device_world [] 44100)"
proof -
  have dev: "store (device_world [] 44100) 0x2000 =
       Some (Device \<lparr>ma_device.sampleRate = 44100, dev_others = ()\<rparr>)"
    by (simp add: device_world_def)
  have "calls (device_world [] 44100) = []"
    by (simp add: device_world_def)
  with zig_ma_device_get_sample_rate_pure [OF addresses_distinct(2) dev]
  show ?thesis
    using addresses_distinct(2) dev by auto
qed

subsection \<open>Starting and tearing down\<close>

text \<open>
  Claim C5. \<open>zig_ma_device_start\<close> returns nothing but the new state, for every handle:
  whatever result code the native start answers, the state after the call is what the
  native call left, with the call recorded. Two native functions that differ only in
  the result code they answer leave the caller with the same.
\<close>

theorem zig_ma_device_start_discards_result:
  "(\<forall>r s e. ms device (store w) (engine w) = (r, s, e) \<longrightarrow>
      zig_ma_device_start ms device w =
        w\<lparr>store := s, engine := e, calls := calls w @ [Call_ma_device_start device]\<rparr>)
   \<and> (\<forall>ms'. snd (ms' device (store w) (engine w)) = snd (ms device (store w) (engine w)) \<longrightarrow>
        zig_ma_device_start ms' device w = zig_ma_device_start ms device w)"
  by (auto simp add: zig_ma_device_start_def call_ma_device_start_def split: prod.splits)

theorem zig_ma_device_start_discards_result_witness:
  "counting_device_start (- 1) 0x2000 (store (device_world [] 44100)) (engine (device_world [] 44100))
     = (- 1, store (device_world [] 44100), 1)
   \<and> zig_ma_device_start (counting_device_start (- 1)) 0x2000 (device_world [] 44100) =
       (device_world [] 44100)\<lparr>calls := [Call_ma_device_start 0x2000]\<rparr>
   \<and> zig_ma_device_start (counting_device_start MA_SUCCESS) 0x2000 (device_world [] 44100) =
       zig_ma_device_start (counting_device_start (- 1)) 0x2000 (device_world [] 44100)"
proof -
  have native: "counting_device_start r 0x2000 (store (device_world [] 44100))
      (engine (device_world [] 44100)) = (r, store (device_world [] 44100), 1)" for r
    by (simp add: counting_device_start_def device_world_def)
  note t = zig_ma_device_start_discards_result
    [of "counting_device_start (- 1)" "0x2000" "device_world [] 44100"]
  from t native [of "- 1"]
  have "zig_ma_device_start (counting_device_start (- 1)) 0x2000 (device_world [] 44100) =
      (device_world [] 44100)\<lparr>store := store (device_world [] 44100), engine := 1,
         calls := calls (device_world [] 44100) @ [Call_ma_device_start 0x2000]\<rparr>"
    by blast
  then have a: "zig_ma_device_start (counting_device_start (- 1)) 0x2000 (device_world [] 44100) =
       (device_world [] 44100)\<lparr>calls := [Call_ma_device_start 0x2000]\<rparr>"
    by (simp add: device_world_def)
  have "snd (counting_device_start MA_SUCCESS 0x2000 (store (device_world [] 44100))
          (engine (device_world [] 44100))) =
        snd (counting_device_start (- 1) 0x2000 (store (device_world [] 44100))
          (engine (device_world [] 44100)))"
    by (simp add: native)
  with t have b: "zig_ma_device_start (counting_device_start MA_SUCCESS) 0x2000 (device_world [] 44100) =
       zig_ma_device_start (counting_device_start (- 1)) 0x2000 (device_world [] 44100)"
    by blast
  from a b native [of "- 1"] show ?thesis
    by blast
qed

lemma zig_ma_device_uninit_NULL: "zig_ma_device_uninit mu NULL w = Inr w"
  by (simp add: zig_ma_device_uninit_def)

lemma zig_ma_device_uninit_Device:
  assumes "device \<noteq> NULL" and "store w device = Some (Device d)"
    and "mu d (engine w) = (d', e)"
  shows "zig_ma_device_uninit mu device w =
     Inr (w\<lparr>store := (store w)(device := None), engine := e,
            calls := calls w @ [Call_ma_device_uninit device, Call_free device]\<rparr>)"
  using assms
  by (simp add: zig_ma_device_uninit_def call_ma_device_uninit_def free_Device)

text \<open>
  Claim C3. \<open>zig_ma_device_uninit\<close> with a null handle returns with the state it was
  called in and no fault: no native call, nothing freed. With a non-null handle that has
  a device record behind it, it calls the native teardown and then frees the block: the
  two calls are made in this order, the engine is as the teardown left it and the block
  is gone.
\<close>

theorem zig_ma_device_uninit_behaviour:
  "zig_ma_device_uninit mu NULL w = Inr w
   \<and> (\<forall>d d' e. device \<noteq> NULL \<and> store w device = Some (Device d)
          \<and> mu d (engine w) = (d', e) \<longrightarrow>
        zig_ma_device_uninit mu device w =
          Inr (w\<lparr>store := (store w)(device := None), engine := e,
                 calls := calls w @ [Call_ma_device_uninit device, Call_free device]\<rparr>))"
  by (simp add: zig_ma_device_uninit_NULL zig_ma_device_uninit_Device)

theorem zig_ma_device_uninit_behaviour_witness:
  "zig_ma_device_uninit counting_device_uninit NULL (device_world [] 44100) =
     Inr (device_world [] 44100)
   \<and> (0x2000 :: ptr) \<noteq> NULL
   \<and> store (device_world [] 44100) 0x2000 =
       Some (Device \<lparr>ma_device.sampleRate = 44100, dev_others = ()\<rparr>)
   \<and> zig_ma_device_uninit counting_device_uninit 0x2000 (device_world [] 44100) =
       Inr ((caller_world [])\<lparr>calls := [Call_ma_device_uninit 0x2000, Call_free 0x2000]\<rparr>)"
proof -
  have dev: "store (device_world [] 44100) 0x2000 =
       Some (Device \<lparr>ma_device.sampleRate = 44100, dev_others = ()\<rparr>)"
    by (simp add: device_world_def)
  have native: "counting_device_uninit \<lparr>ma_device.sampleRate = 44100, dev_others = ()\<rparr>
      (engine (device_world [] 44100)) = (\<lparr>ma_device.sampleRate = 0, dev_others = ()\<rparr>, 0)"
    by (simp add: counting_device_uninit_def device_world_def)
  note t = zig_ma_device_uninit_behaviour
    [of counting_device_uninit "device_world [] 44100" "0x2000"]
  from t have a: "zig_ma_device_uninit counting_device_uninit NULL (device_world [] 44100) =
     Inr (device_world [] 44100)"
    by blast
  from t addresses_distinct(2) dev native
  have "zig_ma_device_uninit counting_device_uninit 0x2000 (device_world [] 44100) =
      Inr ((device_world [] 44100)
        \<lparr>store := (store (device_world [] 44100))(0x2000 := None), engine := 0,
         calls := calls (device_world [] 44100)
           @ [Call_ma_device_uninit 0x2000, Call_free 0x2000]\<rparr>)"
    by blast
  then have b: "zig_ma_device_uninit counting_device_uninit 0x2000 (device_world [] 44100) =
       Inr ((caller_world [])\<lparr>calls := [Call_ma_device_uninit 0x2000, Call_free 0x2000]\<rparr>)"
    by (simp add: device_world_def caller_world_def)
  from a b dev addresses_distinct(2) show ?thesis
    by blast
qed

text \<open>
  Claim C7. \<open>zig_ma_device_start\<close> and \<open>zig_ma_device_get_sample_rate\<close> do not check
  the handle for null: the first hands every handle, null too, to the native start, and
  the second dereferences a null handle, which is undefined behaviour. A non-null
  handle with a device record behind it is read without fault. \<open>zig_ma_device_uninit\<close>
  does check: with a null handle it does nothing.
\<close>

theorem null_handle_checks:
  "zig_ma_device_get_sample_rate NULL w = Inl Null_dereference
   \<and> zig_ma_device_start ms NULL w = snd (call_ma_device_start ms NULL w)
   \<and> calls (zig_ma_device_start ms device w) = calls w @ [Call_ma_device_start device]
   \<and> (\<forall>d. device \<noteq> NULL \<and> store w device = Some (Device d) \<longrightarrow>
        zig_ma_device_get_sample_rate device w = Inr (ma_device.sampleRate d, w))
   \<and> zig_ma_device_uninit mu NULL w = Inr w
   \<and> (\<forall>f. zig_ma_device_uninit mu device w = Inl f \<longrightarrow> device \<noteq> NULL)"
  by (auto simp add: zig_ma_device_get_sample_rate_def zig_ma_device_start_def
        call_ma_device_start_def zig_ma_device_uninit_NULL split: prod.splits)

theorem null_handle_checks_witness:
  "zig_ma_device_get_sample_rate NULL (device_world [] 44100) = Inl Null_dereference
   \<and> calls (zig_ma_device_start (counting_device_start (- 2)) NULL (device_world [] 44100)) =
       [Call_ma_device_start NULL]
   \<and> (0x2000 :: ptr) \<noteq> NULL
   \<and> store (device_world [] 44100) 0x2000 =
       Some (Device \<lparr>ma_device.sampleRate = 44100, dev_others = ()\<rparr>)
   \<and> zig_ma_device_get_sample_rate 0x2000 (device_world [] 44100) =
       Inr (44100, device_world [] 44100)
   \<and> zig_ma_device_uninit counting_device_uninit NULL (device_world [] 44100) =
       Inr (device_world [] 44100)
   \<and> zig_ma_device_uninit counting_device_uninit 0x3000 (device_world [] 44100) =
       Inl Invalid_pointer
   \<and> (0x3000 :: ptr) \<noteq> NULL"
proof -
  have dev: "store (device_world [] 44100) 0x2000 =
       Some (Device \<lparr>ma_device.sampleRate = 44100, dev_others = ()\<rparr>)"
    by (simp add: device_world_def)
  have stale: "zig_ma_device_uninit counting_device_uninit 0x3000 (device_world [] 44100) =
       Inl Invalid_pointer"
    by (simp add: zig_ma_device_uninit_def call_ma_device_uninit_def device_world_def NULL_def)
  note t = null_handle_checks [of "device_world [] 44100" "counting_device_start (- 2)" _
      counting_device_uninit]
  from t [of NULL] have a: "zig_ma_device_get_sample_rate NULL (device_world [] 44100) =
      Inl Null_dereference"
    and u: "zig_ma_device_uninit counting_device_uninit NULL (device_world [] 44100) =
       Inr (device_world [] 44100)"
    by blast+
  from t [of NULL]
  have "calls (zig_ma_device_start (counting_device_start (- 2)) NULL (device_world [] 44100)) =
      calls (device_world [] 44100) @ [Call_ma_device_start NULL]"
    by blast
  then have b: "calls (zig_ma_device_start (counting_device_start (- 2)) NULL
      (device_world [] 44100)) = [Call_ma_device_start NULL]"
    by (simp add: device_world_def)
  from t [of "0x2000"] addresses_distinct(2) dev
  have "zig_ma_device_get_sample_rate 0x2000 (device_world [] 44100) =
      Inr (ma_device.sampleRate \<lparr>ma_device.sampleRate = 44100, dev_others = ()\<rparr>,
           device_world [] 44100)"
    by blast
  then have c: "zig_ma_device_get_sample_rate 0x2000 (device_world [] 44100) =
       Inr (44100, device_world [] 44100)"
    by simp
  from t [of "0x3000"] stale have d: "(0x3000 :: ptr) \<noteq> NULL"
    by blast
  from a b c d u stale dev addresses_distinct(2) show ?thesis
    by blast
qed

end
